theory Spec2Isabelle
  imports Main "HOL-Library.Sublist" "HOL-Library.Word"
begin

unbundle bit_operations_syntax

section \<open>Python strings\<close>

text \<open>
  A Python \<open>str\<close> is modelled as a HOL \<open>string\<close>: a list of 8-bit characters, read as
  the Unicode code points 0 to 255 (ASCII and Latin-1). The character classes and the
  case mapping below are the ones of the Unicode database on that range. Text outside
  that range (the pictographs of the printed messages) never enters a string of the
  model: a printed line is a constructor of a message type.
\<close>

definition isspace :: "char \<Rightarrow> bool" where
  \<comment> \<open>\<open>str.isspace\<close> on one character\<close>
  "isspace c =
     (let n = of_char c :: nat
      in (9 \<le> n \<and> n \<le> 13) \<or> (28 \<le> n \<and> n \<le> 32) \<or> n = 133 \<or> n = 160)"

definition isalnum :: "char \<Rightarrow> bool" where
  \<comment> \<open>\<open>str.isalnum\<close> on one character\<close>
  "isalnum c =
     (let n = of_char c :: nat
      in (48 \<le> n \<and> n \<le> 57) \<or> (65 \<le> n \<and> n \<le> 90) \<or> (97 \<le> n \<and> n \<le> 122)
         \<or> n = 170 \<or> n = 178 \<or> n = 179 \<or> n = 181 \<or> n = 185 \<or> n = 186
         \<or> n = 188 \<or> n = 189 \<or> n = 190
         \<or> (192 \<le> n \<and> n \<noteq> 215 \<and> n \<noteq> 247))"

definition lower_char :: "char \<Rightarrow> char" where
  "lower_char c =
     (let n = of_char c :: nat
      in if (65 \<le> n \<and> n \<le> 90) \<or> (192 \<le> n \<and> n \<le> 222 \<and> n \<noteq> 215)
         then char_of (n + 32) else c)"

definition lower :: "string \<Rightarrow> string" where
  \<comment> \<open>\<open>s.lower()\<close>\<close>
  "lower s = map lower_char s"

definition strip :: "string \<Rightarrow> string" where
  \<comment> \<open>\<open>s.strip()\<close>: white space removed at both ends\<close>
  "strip s = rev (dropWhile isspace (rev (dropWhile isspace s)))"

definition rstrip :: "string \<Rightarrow> string \<Rightarrow> string" where
  \<comment> \<open>\<open>s.rstrip(chars)\<close>: trailing characters of the set \<open>chars\<close> removed\<close>
  "rstrip chars s = rev (dropWhile (\<lambda>c. c \<in> set chars) (rev s))"

fun contains :: "string \<Rightarrow> string \<Rightarrow> bool" where
  \<comment> \<open>\<open>sub in s\<close>\<close>
  "contains sub [] = (sub = [])"
| "contains sub (c # cs) = (prefix sub (c # cs) \<or> contains sub cs)"

definition startswith :: "string \<Rightarrow> string \<Rightarrow> bool" where
  "startswith s p = prefix p s"

fun replace_skip :: "string \<Rightarrow> string \<Rightarrow> nat \<Rightarrow> string \<Rightarrow> string" where
  \<comment> \<open>the scan of \<open>str.replace\<close>; \<open>k\<close> characters of a match are still to be skipped\<close>
  "replace_skip old new k [] = []"
| "replace_skip old new (Suc k) (c # cs) = replace_skip old new k cs"
| "replace_skip old new 0 (c # cs) =
     (if prefix old (c # cs) then new @ replace_skip old new (length old - 1) cs
      else c # replace_skip old new 0 cs)"

definition replace :: "string \<Rightarrow> string \<Rightarrow> string \<Rightarrow> string" where
  \<comment> \<open>\<open>s.replace(old, new)\<close>: every occurrence, left to right, without overlap\<close>
  "replace old new s =
     (if old = [] then new @ concat (map (\<lambda>c. c # new) s) else replace_skip old new 0 s)"

fun split :: "char \<Rightarrow> string \<Rightarrow> string list" where
  \<comment> \<open>\<open>s.split(sep)\<close> for a separator of one character\<close>
  "split sep [] = [[]]"
| "split sep (c # cs) =
     (if c = sep then [] # split sep cs
      else (case split sep cs of [] \<Rightarrow> [[c]] | l # ls \<Rightarrow> (c # l) # ls))"

function str_nat :: "nat \<Rightarrow> string" where
  "str_nat n = (if n < 10 then [char_of (48 + n)] else str_nat (n div 10) @ [char_of (48 + n mod 10)])"
  by pat_completeness auto
termination
  by (relation "measure id") auto

declare str_nat.simps [simp del]

definition str_int :: "int \<Rightarrow> string" where
  \<comment> \<open>\<open>str(i)\<close>, the decimal form an f-string inserts\<close>
  "str_int i = (if i < 0 then CHR ''-'' # str_nat (nat (- i)) else str_nat (nat i))"

definition encode :: "string \<Rightarrow> int list" where
  \<comment> \<open>\<open>s.encode()\<close>: the UTF-8 bytes; a code point from 128 to 255 takes two bytes\<close>
  "encode s =
     concat (map (\<lambda>c. let n = of_char c :: int
                        in if n < 128 then [n] else [192 + n div 64, 128 + n mod 64]) s)"

section \<open>\<open>hashlib.md5\<close>\<close>

text \<open>
  The digest of the standard library, written out after RFC 1321 so that the hue of a
  concrete title can be computed. Bytes are integers from 0 to 255, the four chaining
  values are 32-bit words.
\<close>

definition md5_K :: "32 word list" where
  "md5_K =
  [0xD76AA478, 0xE8C7B756, 0x242070DB, 0xC1BDCEEE,
   0xF57C0FAF, 0x4787C62A, 0xA8304613, 0xFD469501,
   0x698098D8, 0x8B44F7AF, 0xFFFF5BB1, 0x895CD7BE,
   0x6B901122, 0xFD987193, 0xA679438E, 0x49B40821,
   0xF61E2562, 0xC040B340, 0x265E5A51, 0xE9B6C7AA,
   0xD62F105D, 0x02441453, 0xD8A1E681, 0xE7D3FBC8,
   0x21E1CDE6, 0xC33707D6, 0xF4D50D87, 0x455A14ED,
   0xA9E3E905, 0xFCEFA3F8, 0x676F02D9, 0x8D2A4C8A,
   0xFFFA3942, 0x8771F681, 0x6D9D6122, 0xFDE5380C,
   0xA4BEEA44, 0x4BDECFA9, 0xF6BB4B60, 0xBEBFBC70,
   0x289B7EC6, 0xEAA127FA, 0xD4EF3085, 0x04881D05,
   0xD9D4D039, 0xE6DB99E5, 0x1FA27CF8, 0xC4AC5665,
   0xF4292244, 0x432AFF97, 0xAB9423A7, 0xFC93A039,
   0x655B59C3, 0x8F0CCC92, 0xFFEFF47D, 0x85845DD1,
   0x6FA87E4F, 0xFE2CE6E0, 0xA3014314, 0x4E0811A1,
   0xF7537E82, 0xBD3AF235, 0x2AD7D2BB, 0xEB86D391]"

definition md5_s :: "nat list" where
  "md5_s =
  [7, 12, 17, 22, 7, 12, 17, 22, 7, 12, 17, 22, 7, 12, 17, 22,
   5, 9, 14, 20, 5, 9, 14, 20, 5, 9, 14, 20, 5, 9, 14, 20,
   4, 11, 16, 23, 4, 11, 16, 23, 4, 11, 16, 23, 4, 11, 16, 23,
   6, 10, 15, 21, 6, 10, 15, 21, 6, 10, 15, 21, 6, 10, 15, 21]"

type_synonym md5_state = "32 word \<times> 32 word \<times> 32 word \<times> 32 word"

fun md5_step :: "32 word list \<Rightarrow> md5_state \<Rightarrow> nat \<Rightarrow> md5_state" where
  "md5_step M (a, b, c, d) i =
     (let (f, g) =
        (if i < 16 then ((b AND c) OR (NOT b AND d), i)
         else if i < 32 then ((d AND b) OR (NOT d AND c), (5 * i + 1) mod 16)
         else if i < 48 then (b XOR c XOR d, (3 * i + 5) mod 16)
         else (c XOR (b OR NOT d), (7 * i) mod 16));
        x = f + a + md5_K ! i + M ! g
      in (d, b + word_rotl (md5_s ! i) x, b, c))"

fun md5_block :: "md5_state \<Rightarrow> 32 word list \<Rightarrow> md5_state" where
  "md5_block (a0, b0, c0, d0) M =
     (case foldl (md5_step M) (a0, b0, c0, d0) [0..<64] of
        (a, b, c, d) \<Rightarrow> (a0 + a, b0 + b, c0 + c, d0 + d))"

definition le_bytes :: "nat \<Rightarrow> int \<Rightarrow> int list" where
  \<comment> \<open>the \<open>k\<close> low bytes of \<open>n\<close>, least significant first\<close>
  "le_bytes k n = map (\<lambda>i. (n div 256 ^ i) mod 256) [0..<k]"

definition md5_pad :: "int list \<Rightarrow> int list" where
  "md5_pad bs = bs @ [128] @ replicate ((119 - length bs mod 64) mod 64) 0
                 @ le_bytes 8 ((8 * int (length bs)) mod 2 ^ 64)"

fun le_words :: "int list \<Rightarrow> 32 word list" where
  "le_words (b0 # b1 # b2 # b3 # bs) =
     word_of_int (b0 + 256 * b1 + 65536 * b2 + 16777216 * b3) # le_words bs"
| "le_words _ = []"

fun md5_blocks :: "md5_state \<Rightarrow> 32 word list \<Rightarrow> nat \<Rightarrow> md5_state" where
  "md5_blocks st ws 0 = st"
| "md5_blocks st ws (Suc n) = md5_blocks (md5_block st (take 16 ws)) (drop 16 ws) n"

definition md5_digest :: "int list \<Rightarrow> int list" where
  "md5_digest bs =
     (let ws = le_words (md5_pad bs) in
      case md5_blocks (0x67452301, 0xEFCDAB89, 0x98BADCFE, 0x10325476) ws (length ws div 16) of
        (a, b, c, d) \<Rightarrow> concat (map (\<lambda>w. le_bytes 4 (uint w)) [a, b, c, d]))"

definition md5_int :: "int list \<Rightarrow> int" where
  \<comment> \<open>\<open>int(hashlib.md5(bs).hexdigest(), 16)\<close>: the 16 digest bytes read as one number,
      most significant byte first\<close>
  "md5_int bs = foldl (\<lambda>acc b. 256 * acc + b) 0 (md5_digest bs)"

section \<open>Colour scheme and slug (pipeline.py)\<close>

record color_scheme =
  primary :: string
  secondary :: string
  accent :: string
  gradient :: string

definition hue_of :: "string \<Rightarrow> int" where
  \<comment> \<open>\<open>hash_val % 360\<close> in \<open>generate_color_scheme\<close>\<close>
  "hue_of title = md5_int (encode title) mod 360"

definition generate_color_scheme :: "string \<Rightarrow> color_scheme" where
  "generate_color_scheme title =
     (let hash_val = md5_int (encode title);
          hue = hash_val mod 360
      in \<lparr> primary = ''hsl('' @ str_int hue @ '', 80%, 55%)'',
           secondary = ''hsl('' @ str_int ((hue + 30) mod 360) @ '', 70%, 60%)'',
           accent = ''hsl('' @ str_int ((hue + 180) mod 360) @ '', 75%, 50%)'',
           gradient = ''linear-gradient(135deg, hsl('' @ str_int hue @ '', 80%, 55%), hsl(''
                        @ str_int ((hue + 40) mod 360) @ '', 70%, 60%))'' \<rparr>)"

definition slug_of :: "string \<Rightarrow> string" where
  \<comment> \<open>the two slug lines of \<open>save_to_github\<close>\<close>
  "slug_of title =
     (let slug = replace ''/'' ''-'' (replace '' '' ''-'' (lower title))
      in filter (\<lambda>c. isalnum c \<or> c = CHR ''-'') slug)"

definition slug_spec :: "string \<Rightarrow> string" where
  \<comment> \<open>the slug as the specification words it: lower-case, spaces to hyphens, then every
      character that is neither alphanumeric nor a hyphen removed\<close>
  "slug_spec title =
     filter (\<lambda>c. isalnum c \<or> c = CHR ''-'')
       (map (\<lambda>c. if c = CHR '' '' then CHR ''-'' else c) (lower title))"

section \<open>Platform detection (\<open>extract_recipe\<close>) and the allow-list (telegram_handler.py)\<close>

definition detect_platform :: "string \<Rightarrow> string" where
  \<comment> \<open>the \<open>if\<close>/\<open>elif\<close> chain at the head of \<open>extract_recipe\<close>\<close>
  "detect_platform source_url =
     (if contains ''tiktok'' source_url then ''tiktok''
      else if contains ''instagram'' source_url then ''instagram''
      else if contains ''youtube'' source_url then ''youtube''
      else ''unknown'')"

definition valid_platforms :: "string list" where
  "valid_platforms = [''tiktok'', ''instagram'', ''youtube'', ''youtu.be'']"

definition supported :: "string \<Rightarrow> bool" where
  \<comment> \<open>\<open>any(p in url.lower() for p in valid_platforms)\<close>\<close>
  "supported url = list_ex (\<lambda>p. contains p (lower url)) valid_platforms"

section \<open>Data model\<close>

text \<open>
  The JSON objects of the program are records. A recipe is taken to carry the fields the
  prompt of \<open>extract_recipe\<close> asks for, and an index entry the fields \<open>save_to_github\<close>
  writes; a field a later stage adds (\<open>colors\<close>, \<open>thumbnail\<close>) is optional. The keys
  \<open>note\<close> and \<open>notes\<close> are the fields \<open>extra_note\<close> and \<open>recipe_notes\<close>.
\<close>

record source_info =
  url :: string
  platform :: string
  creator :: string

record recipe_metadata =
  time :: string
  difficulty :: string
  tags :: "string list"

record ingredient =
  item :: string
  amount :: "string option"
  prep :: "string option"
  extra_note :: "string option"

record recipe =
  title :: string
  source :: source_info
  metadata :: recipe_metadata
  ingredients :: "ingredient list"
  instructions :: "string list"
  recipe_notes :: string
  colors :: "color_scheme option"
  thumbnail :: "string option"

record index_entry =
  entry_title :: string
  entry_source :: source_info
  entry_metadata :: recipe_metadata
  entry_colors :: "color_scheme option"
  entry_thumbnail :: "string option"

section \<open>The outside world\<close>

text \<open>
  Every external collaborator is an oracle of the record \<open>externals\<close>: what it answers
  is an input of the model. What the program does to the outside is logged in order in
  \<open>trace\<close>, what it prints in \<open>out\<close>; \<open>index_file\<close> is the list \<open>recipes\<close> of
  \<open>data/recipes.json\<close>. External calls are taken to return (a call that hangs is not
  modelled), and the publish repository to exist with a readable index.
\<close>

record completed =
  returncode :: int
  stdout :: string
  stderr :: string

datatype shell_result = Exited completed | TimedOut

datatype cobalt_reply =
    CobaltRaises string
  | CobaltJson "string option" "string option" "string option"

text \<open>
  \<open>CobaltRaises\<close>: \<open>urlopen\<close>, \<open>read\<close> or \<open>json.loads\<close> raised, with the text of the
  exception. \<open>CobaltJson status url filename\<close>: a JSON object came back, each of the three
  keys possibly missing.
\<close>

datatype fetch_result = FetchRaises string | Fetched nat

datatype gemini_reply =
    GeminiRaises string
  | GeminiJson "recipe option"

text \<open>
  \<open>GeminiRaises\<close>: the request raised or the answer could not be parsed.
  \<open>GeminiJson None\<close> is the empty object \<open>{}\<close>.
\<close>

datatype error = TimeoutExpired | FileNotFoundError | ApiError string

datatype event =
    Mkdtemp string
  | Rmtree string
  | CobaltPost string
  | Sleep nat
  | UrlRetrieve string string
  | Ffmpeg string string
  | Whisper string
  | GeminiPost string string string
  | CopyFile string string
  | WriteRecipe string recipe
  | WriteIndex "index_entry list"
  | Chdir string
  | Shell string

datatype notice =
    Usage
  | AlreadyExists string
  | SiteLink
  | KeyNotSet
  | Banner
  | Url string
  | Blank
  | FailedDownload
  | FailedAudio
  | FailedTranscribe
  | FailedExtract
  | Done
  | RecipeLine string
  | SiteLine string
  | CommandFailed string
  | ErrorText string
  | Downloading
  | CobaltError cobalt_reply
  | Retrying nat nat
  | AttemptFailed nat string
  | WaitingForWake
  | FailedAfter nat
  | Downloaded string nat
  | ExtractingAudio
  | FfmpegError string
  | AudioExtracted nat
  | ExtractingThumbnail
  | ThumbnailFailed string
  | ThumbnailExtracted nat
  | Transcribing
  | WhisperError string
  | Transcribed nat
  | ExtractingRecipe
  | Extracted string
  | Saving
  | Committed string

record externals =
  tmp_dir :: string
  cobalt :: "nat \<Rightarrow> string \<Rightarrow> cobalt_reply"
  fetch :: "nat \<Rightarrow> string \<Rightarrow> fetch_result"
  ffmpeg_audio :: completed
  audio_size :: nat
  ffmpeg_thumbnail :: completed
  thumbnail_size :: nat
  whisper :: completed
  transcript_file :: "string option"
  gemini :: "string \<Rightarrow> string \<Rightarrow> string \<Rightarrow> gemini_reply"
  path_exists :: "string \<Rightarrow> bool"
  shell :: "string \<Rightarrow> shell_result"

record world =
  index_file :: "index_entry list"
  trace :: "event list"
  out :: "notice list"

datatype 'a outcome = Returned 'a | SysExit int | Uncaught error

fun exit_status :: "'a outcome \<Rightarrow> int" where
  "exit_status (Returned _) = 0"
| "exit_status (SysExit n) = n"
| "exit_status (Uncaught _) = 1"

definition say :: "notice \<Rightarrow> world \<Rightarrow> world" where
  "say n w = w\<lparr>out := out w @ [n]\<rparr>"

definition emit :: "event \<Rightarrow> world \<Rightarrow> world" where
  "emit e w = w\<lparr>trace := trace w @ [e]\<rparr>"

definition nonempty :: "string option \<Rightarrow> string option" where
  \<comment> \<open>the truth value of an optional string: \<open>None\<close> and the empty string are false\<close>
  "nonempty x = (case x of None \<Rightarrow> None | Some s \<Rightarrow> if s = [] then None else Some s)"

definition path_join :: "string \<Rightarrow> string \<Rightarrow> string" where
  \<comment> \<open>\<open>os.path.join\<close> with a relative second part\<close>
  "path_join a b = (if a = [] then b else if last a = CHR ''/'' then a @ b else a @ ''/'' @ b)"

section \<open>The stages of pipeline.py\<close>

definition run_command :: "externals \<Rightarrow> string \<Rightarrow> world \<Rightarrow> (error + string option) \<times> world" where
  "run_command ext cmd w =
     (let w1 = emit (Shell cmd) w in
      case shell ext cmd of
        TimedOut \<Rightarrow> (Inl TimeoutExpired, w1)
      | Exited result \<Rightarrow>
          if returncode result \<noteq> 0
          then (Inr None, say (ErrorText (stderr result)) (say (CommandFailed cmd) w1))
          else (Inr (Some (strip (stdout result))), w1))"

definition attempt_failed :: "nat \<Rightarrow> nat \<Rightarrow> string \<Rightarrow> world \<Rightarrow> world" where
  \<comment> \<open>the \<open>except\<close> branch of the retry loop\<close>
  "attempt_failed max_retries attempt msg w =
     (let w1 = say (AttemptFailed (attempt + 1) (take 100 msg)) w in
      if attempt + 1 < max_retries then emit (Sleep 5) (say WaitingForWake w1)
      else say (FailedAfter max_retries) w1)"

definition download_attempt ::
  "externals \<Rightarrow> string \<Rightarrow> string \<Rightarrow> nat \<Rightarrow> nat \<Rightarrow> world \<Rightarrow> string option \<times> world" where
  \<comment> \<open>one pass through the body of the retry loop: the path when the video is there,
      \<open>None\<close> when the attempt failed (the wait before the next one included)\<close>
  "download_attempt ext video_url work_dir max_retries attempt w =
     (let w1 = emit (CobaltPost video_url) w in
      case cobalt ext attempt video_url of
        CobaltRaises msg \<Rightarrow> (None, attempt_failed max_retries attempt msg w1)
      | CobaltJson status media filename \<Rightarrow>
          if status \<noteq> Some ''tunnel'' then
            (let w2 = say (CobaltError (CobaltJson status media filename)) w1 in
             if attempt + 1 < max_retries
             then (None, emit (Sleep 5) (say (Retrying (attempt + 1) max_retries) w2))
             else (None, w2))
          else
            (case media of
               None \<Rightarrow> (None, attempt_failed max_retries attempt ([CHR 0x27] @ ''url'' @ [CHR 0x27]) w1)
             | Some media_url \<Rightarrow>
                 (let video_path = path_join work_dir ''video.mp4'';
                      w2 = emit (UrlRetrieve media_url video_path) w1 in
                  case fetch ext attempt media_url of
                    FetchRaises msg \<Rightarrow> (None, attempt_failed max_retries attempt msg w2)
                  | Fetched nbytes \<Rightarrow>
                      (Some video_path,
                       say (Downloaded (case filename of None \<Rightarrow> ''video.mp4'' | Some f \<Rightarrow> f)
                              (nbytes div 1024 div 1024)) w2))))"

function download_loop ::
  "externals \<Rightarrow> string \<Rightarrow> string \<Rightarrow> nat \<Rightarrow> nat \<Rightarrow> world \<Rightarrow> string option \<times> world" where
  "download_loop ext video_url work_dir max_retries attempt w =
     (if max_retries \<le> attempt then (None, w)
      else
        (case download_attempt ext video_url work_dir max_retries attempt w of
           (Some video_path, w') \<Rightarrow> (Some video_path, w')
         | (None, w') \<Rightarrow>
             if attempt + 1 < max_retries
             then download_loop ext video_url work_dir max_retries (attempt + 1) w'
             else (None, w')))"
  by pat_completeness auto
termination
  by (relation "measure (\<lambda>(ext, video_url, work_dir, max_retries, attempt, w). max_retries - attempt)") auto

declare download_loop.simps [simp del]

definition download_video ::
  "externals \<Rightarrow> string \<Rightarrow> string \<Rightarrow> string \<Rightarrow> nat \<Rightarrow> world \<Rightarrow> string option \<times> world" where
  "download_video ext video_url api_key work_dir max_retries w =
     download_loop ext video_url work_dir max_retries 0 (say Downloading w)"

definition extract_audio ::
  "externals \<Rightarrow> string \<Rightarrow> string \<Rightarrow> world \<Rightarrow> string option \<times> world" where
  "extract_audio ext video_path work_dir w =
     (let audio_path = path_join work_dir ''audio.wav'';
          w1 = emit (Ffmpeg video_path audio_path) (say ExtractingAudio w);
          result = ffmpeg_audio ext in
      if returncode result \<noteq> 0 then (None, say (FfmpegError (stderr result)) w1)
      else (Some audio_path, say (AudioExtracted (audio_size ext div 1024)) w1))"

definition extract_thumbnail ::
  "externals \<Rightarrow> string \<Rightarrow> string \<Rightarrow> world \<Rightarrow> string option \<times> world" where
  "extract_thumbnail ext video_path work_dir w =
     (let thumb_path = path_join work_dir ''thumbnail.jpg'';
          w1 = emit (Ffmpeg video_path thumb_path) (say ExtractingThumbnail w);
          result = ffmpeg_thumbnail ext in
      if returncode result \<noteq> 0 then (None, say (ThumbnailFailed (take 100 (stderr result))) w1)
      else (Some thumb_path, say (ThumbnailExtracted (thumbnail_size ext div 1024)) w1))"

definition transcribe ::
  "externals \<Rightarrow> string \<Rightarrow> world \<Rightarrow> (error + string option) \<times> world" where
  "transcribe ext audio_path w =
     (let w1 = emit (Whisper audio_path) (say Transcribing w);
          result = whisper ext in
      if returncode result \<noteq> 0 then (Inr None, say (WhisperError (stderr result)) w1)
      else
        (case transcript_file ext of
           None \<Rightarrow> (Inl FileNotFoundError, w1)
         | Some text \<Rightarrow>
             (let transcription = strip text in
              (Inr (Some transcription), say (Transcribed (length transcription)) w1))))"

definition extract_recipe ::
  "externals \<Rightarrow> string \<Rightarrow> string \<Rightarrow> string \<Rightarrow> world \<Rightarrow> (error + recipe option) \<times> world" where
  \<comment> \<open>the result \<open>None\<close> is the empty object \<open>{}\<close>\<close>
  "extract_recipe ext transcription source_url api_key w =
     (let platform = detect_platform source_url;
          w1 = emit (GeminiPost transcription source_url platform) (say ExtractingRecipe w) in
      case gemini ext transcription source_url platform of
        GeminiRaises msg \<Rightarrow> (Inl (ApiError msg), w1)
      | GeminiJson None \<Rightarrow> (Inr None, say (Extracted ''Unknown'') w1)
      | GeminiJson (Some recipe) \<Rightarrow> (Inr (Some recipe), say (Extracted (title recipe)) w1))"

definition repo_dir :: string where
  "repo_dir = ''/home/jonathan/clawd/recipes''"

definition site_url :: string where
  "site_url = ''https://jonahenk.github.io/recipes/''"

definition index_entry_of :: "recipe \<Rightarrow> index_entry" where
  \<comment> \<open>the dictionary \<open>index_entry\<close> of \<open>save_to_github\<close>\<close>
  "index_entry_of r =
     \<lparr> entry_title = title r, entry_source = source r, entry_metadata = metadata r,
       entry_colors = colors r, entry_thumbnail = nonempty (thumbnail r) \<rparr>"

definition save_to_github ::
  "externals \<Rightarrow> recipe \<Rightarrow> string \<Rightarrow> string option \<Rightarrow> world \<Rightarrow> (error + string \<times> recipe) \<times> world" where
  \<comment> \<open>the source changes the recipe in place; the changed recipe is returned here\<close>
  "save_to_github ext recipe0 transcription thumbnail_path w0 =
     (let w1 = say Saving w0;
          slug = slug_of (title recipe0);
          recipe1 = recipe0\<lparr>colors := Some (generate_color_scheme (title recipe0))\<rparr>;
          (recipe2, w2) =
            (case nonempty thumbnail_path of
               None \<Rightarrow> (recipe1, w1)
             | Some p \<Rightarrow>
                 if path_exists ext p
                 then (recipe1\<lparr>thumbnail := Some (''recipes/'' @ slug @ ''.jpg'')\<rparr>,
                       emit (CopyFile p (path_join (path_join repo_dir ''recipes'') (slug @ ''.jpg''))) w1)
                 else (recipe1, w1));
          w3 = emit (WriteRecipe (path_join (path_join repo_dir ''recipes'') (slug @ ''.json'')) recipe2) w2;
          index = index_file w3;
          existing = filter (\<lambda>r. url (entry_source r) = url (source recipe2)) index;
          w4 = (if existing = []
                then (let index' = index @ [index_entry_of recipe2]
                      in emit (WriteIndex index') (w3\<lparr>index_file := index'\<rparr>))
                else w3);
          w5 = emit (Chdir repo_dir) w4 in
      case run_command ext ''git add -A'' w5 of
        (Inl e, w6) \<Rightarrow> (Inl e, w6)
      | (Inr _, w6) \<Rightarrow>
      (case run_command ext (''git commit -m '' @ [CHR 0x22] @ ''Add recipe: '' @ title recipe2 @ [CHR 0x22]) w6 of
        (Inl e, w7) \<Rightarrow> (Inl e, w7)
      | (Inr _, w7) \<Rightarrow>
      (case run_command ext ''git push origin main'' w7 of
        (Inl e, w8) \<Rightarrow> (Inl e, w8)
      | (Inr _, w8) \<Rightarrow> (Inr (site_url, recipe2), say (Committed slug) w8))))"

section \<open>\<open>main\<close> of pipeline.py\<close>

definition cobalt_key :: string where
  "cobalt_key = ''DVmbGlgwzCGBbYtnBQnoRiRDXFGChVlc''"

definition normalize :: "string \<Rightarrow> string" where
  \<comment> \<open>\<open>.rstrip('/')\<close>, applied to both sides of the duplicate check of \<open>main\<close>\<close>
  "normalize u = rstrip ''/'' u"

definition run_stages ::
  "externals \<Rightarrow> string \<Rightarrow> string \<Rightarrow> string \<Rightarrow> world \<Rightarrow> recipe option outcome \<times> world" where
  \<comment> \<open>the body of the \<open>try\<close> block\<close>
  "run_stages ext video_url gemini_key work_dir w0 =
     (let w1 = say Blank (say (Url video_url) (say Banner w0)) in
      case download_video ext video_url cobalt_key work_dir 3 w1 of (video_path, w2) \<Rightarrow>
      (case nonempty video_path of
         None \<Rightarrow> (Returned None, say FailedDownload w2)
       | Some video_path \<Rightarrow>
      (case extract_audio ext video_path work_dir w2 of (audio_path, w3) \<Rightarrow>
      (case nonempty audio_path of
         None \<Rightarrow> (Returned None, say FailedAudio w3)
       | Some audio_path \<Rightarrow>
      (case extract_thumbnail ext video_path work_dir w3 of (thumbnail_path, w4) \<Rightarrow>
      (case transcribe ext audio_path w4 of
         (Inl e, w5) \<Rightarrow> (Uncaught e, w5)
       | (Inr transcription, w5) \<Rightarrow>
      (case nonempty transcription of
         None \<Rightarrow> (Returned None, say FailedTranscribe w5)
       | Some transcription \<Rightarrow>
      (case extract_recipe ext transcription video_url gemini_key w5 of
         (Inl e, w6) \<Rightarrow> (Uncaught e, w6)
       | (Inr None, w6) \<Rightarrow> (Returned None, say FailedExtract w6)
       | (Inr (Some recipe), w6) \<Rightarrow>
      (case save_to_github ext recipe transcription thumbnail_path w6 of
         (Inl e, w7) \<Rightarrow> (Uncaught e, w7)
       | (Inr (site, recipe'), w7) \<Rightarrow>
           (Returned (Some recipe'),
            say (SiteLine site) (say (RecipeLine (title recipe')) (say Done (say Blank w7)))))))))))))"

definition pipeline_main ::
  "string list \<Rightarrow> (string \<Rightarrow> string option) \<Rightarrow> externals \<Rightarrow> world \<Rightarrow> recipe option outcome \<times> world" where
  \<comment> \<open>\<open>main()\<close> of pipeline.py under \<open>sys.argv = argv\<close> and \<open>os.environ = environ\<close>\<close>
  "pipeline_main argv environ ext w =
     (if length argv < 2 then (SysExit 1, say Usage w)
      else
        (let video_url = strip (argv ! 1);
             index = index_file w;
             normalized_url = normalize video_url in
         case find (\<lambda>existing. normalize (url (entry_source existing)) = normalized_url) index of
           Some existing \<Rightarrow> (Returned None, say SiteLink (say (AlreadyExists (entry_title existing)) w))
         | None \<Rightarrow>
             (let gemini_key =
                    (case nonempty (environ ''GEMINI_API_KEY'') of
                       Some k \<Rightarrow> Some k
                     | None \<Rightarrow> environ ''GOOGLE_API_KEY'') in
              case nonempty gemini_key of
                None \<Rightarrow> (SysExit 1, say KeyNotSet w)
              | Some gemini_key \<Rightarrow>
                  (let work_dir = tmp_dir ext;
                       w1 = emit (Mkdtemp work_dir) w in
                   case run_stages ext video_url gemini_key work_dir w1 of
                     (result, w2) \<Rightarrow> (result, emit (Rmtree work_dir) w2)))))"

section \<open>\<open>main\<close> of telegram_handler.py\<close>

datatype message =
    UsageMessage
  | Unsupported
  | Added string
  | Link
  | Failed
  | Text string

record handler_log =
  printed :: "message list"
  started :: "string list list"

definition pipeline_path :: string where
  "pipeline_path = ''/home/jonathan/clawd/recipes/scripts/pipeline.py''"

definition tail500 :: "string \<Rightarrow> string" where
  \<comment> \<open>\<open>result.stderr[-500:] if len(result.stderr) > 500 else result.stderr\<close>\<close>
  "tail500 s = (if length s > 500 then drop (length s - 500) s else s)"

definition handler_main ::
  "string list \<Rightarrow> (string list \<Rightarrow> shell_result) \<Rightarrow> unit outcome \<times> handler_log" where
  \<comment> \<open>\<open>main()\<close> of telegram_handler.py; \<open>run\<close> is \<open>subprocess.run\<close> with its limit of 300 s\<close>
  "handler_main argv run =
     (if length argv < 2 then (SysExit 1, \<lparr>printed = [UsageMessage], started = []\<rparr>)
      else
        (let url = argv ! 1 in
         if \<not> supported url then (SysExit 1, \<lparr>printed = [Unsupported], started = []\<rparr>)
         else
           (let cmd = [''python3'', pipeline_path, url] in
            case run cmd of
              TimedOut \<Rightarrow> (Uncaught TimeoutExpired, \<lparr>printed = [], started = [cmd]\<rparr>)
            | Exited result \<Rightarrow>
                if returncode result = 0 then
                  (case find (\<lambda>line. startswith line ''Recipe:'') (split CHR 0x0A (stdout result)) of
                     Some line \<Rightarrow>
                       (Returned (),
                        \<lparr>printed = [Added (strip (replace ''Recipe:'' [] line)), Link], started = [cmd]\<rparr>)
                   | None \<Rightarrow> (Returned (), \<lparr>printed = [], started = [cmd]\<rparr>))
                else (Returned (), \<lparr>printed = [Failed, Text (tail500 (stderr result))], started = [cmd]\<rparr>))))"

section \<open>Example inputs\<close>

definition tiktok_url :: string where
  "tiktok_url = ''https://www.tiktok.com/@chef/video/1''"

definition mixed_case_url :: string where
  "mixed_case_url = ''https://www.TikTok.com/@chef/video/1''"

definition short_link :: string where
  "short_link = ''https://youtu.be/dQw4w9WgXcQ''"

definition short_link_tiktok :: string where
  "short_link_tiktok = ''https://youtu.be/tiktok12345''"

definition failing_run :: "string list \<Rightarrow> shell_result" where
  "failing_run cmd =
     Exited \<lparr>returncode = 1, stdout = [], stderr = ''Traceback (most recent call last):''\<rparr>"

definition soup_url :: string where
  "soup_url = ''https://tiktok.com/x''"

definition soup_url_slash :: string where
  "soup_url_slash = ''https://tiktok.com/x/''"

definition test_soup :: "string \<Rightarrow> recipe" where
  "test_soup u =
     \<lparr> title = ''Test Soup'',
       source = \<lparr>url = u, platform = ''tiktok'', creator = ''@chef''\<rparr>,
       metadata = \<lparr>time = ''20 minutes'', difficulty = ''easy'', tags = [''soup'']\<rparr>,
       ingredients = [\<lparr>item = ''water'', amount = Some ''1L'', prep = None, extra_note = None\<rparr>],
       instructions = [''boil water''],
       recipe_notes = [],
       colors = None,
       thumbnail = None \<rparr>"

definition succeeded :: completed where
  "succeeded = \<lparr>returncode = 0, stdout = [], stderr = []\<rparr>"

definition good_ext :: externals where
  "good_ext =
     \<lparr> tmp_dir = ''/tmp/recipe-k3xq'',
       cobalt = (\<lambda>attempt u. CobaltJson (Some ''tunnel'') (Some ''https://cobalt.example/tunnel'') (Some ''soup.mp4'')),
       fetch = (\<lambda>attempt u. Fetched 5242880),
       ffmpeg_audio = succeeded,
       audio_size = 640000,
       ffmpeg_thumbnail = succeeded,
       thumbnail_size = 81920,
       whisper = succeeded,
       transcript_file = Some ''boil water'',
       gemini = (\<lambda>transcription source_url platform. GeminiJson (Some (test_soup source_url))),
       path_exists = (\<lambda>p. True),
       shell = (\<lambda>cmd. Exited succeeded) \<rparr>"

definition asleep_ext :: externals where
  "asleep_ext = good_ext\<lparr>cobalt := (\<lambda>attempt u. CobaltJson (Some ''error'') None None)\<rparr>"

definition key_env :: "string \<Rightarrow> string option" where
  "key_env name = (if name = ''GEMINI_API_KEY'' then Some ''secret'' else None)"

definition no_env :: "string \<Rightarrow> string option" where
  "no_env name = None"

definition empty_world :: world where
  "empty_world = \<lparr>index_file = [], trace = [], out = []\<rparr>"

definition soup_world :: world where
  "soup_world = \<lparr>index_file = [index_entry_of (test_soup soup_url)], trace = [], out = []\<rparr>"

section \<open>Notions the properties are stated with\<close>

definition already_indexed :: "string \<Rightarrow> index_entry list \<Rightarrow> bool" where
  \<comment> \<open>some entry has the normal form of the URL as the normal form of its source URL\<close>
  "already_indexed video_url index =
     list_ex (\<lambda>e. normalize (url (entry_source e)) = normalize video_url) index"

definition entries_for :: "string \<Rightarrow> index_entry list \<Rightarrow> index_entry list" where
  "entries_for video_url index =
     filter (\<lambda>e. normalize (url (entry_source e)) = normalize video_url) index"

fun non_tunnel :: "cobalt_reply \<Rightarrow> bool" where
  \<comment> \<open>the backend answered, with a status other than \<open>tunnel\<close>\<close>
  "non_tunnel (CobaltJson status media filename) = (status \<noteq> Some ''tunnel'')"
| "non_tunnel (CobaltRaises msg) = False"

definition key_set :: "(string \<Rightarrow> string option) \<Rightarrow> bool" where
  \<comment> \<open>one of the two variables holds a non-empty key\<close>
  "key_set environ =
     (nonempty (environ ''GEMINI_API_KEY'') \<noteq> None \<or> nonempty (environ ''GOOGLE_API_KEY'') \<noteq> None)"

definition enriched :: "externals \<Rightarrow> recipe \<Rightarrow> string option \<Rightarrow> recipe" where
  \<comment> \<open>the recipe after the two changes \<open>save_to_github\<close> makes to it\<close>
  "enriched ext recipe0 thumbnail_path =
     (let recipe1 = recipe0\<lparr>colors := Some (generate_color_scheme (title recipe0))\<rparr> in
      case nonempty thumbnail_path of
        None \<Rightarrow> recipe1
      | Some p \<Rightarrow>
          if path_exists ext p
          then recipe1\<lparr>thumbnail := Some (''recipes/'' @ slug_of (title recipe0) @ ''.jpg'')\<rparr>
          else recipe1)"

definition index_after :: "recipe \<Rightarrow> index_entry list \<Rightarrow> index_entry list" where
  \<comment> \<open>the index after the publish stage has looked for the source URL of the recipe\<close>
  "index_after r index =
     (if list_ex (\<lambda>e. url (entry_source e) = url (source r)) index then index
      else index @ [index_entry_of r])"

definition files_written :: "externals \<Rightarrow> recipe \<Rightarrow> string option \<Rightarrow> world \<Rightarrow> world" where
  \<comment> \<open>the world when \<open>save_to_github\<close> comes to its git commands\<close>
  "files_written ext recipe0 thumbnail_path w0 =
     (let slug = slug_of (title recipe0);
          recipe2 = enriched ext recipe0 thumbnail_path;
          w1 = say Saving w0;
          w2 = (case nonempty thumbnail_path of
                  None \<Rightarrow> w1
                | Some p \<Rightarrow>
                    if path_exists ext p
                    then emit (CopyFile p (path_join (path_join repo_dir ''recipes'') (slug @ ''.jpg''))) w1
                    else w1);
          w3 = emit (WriteRecipe (path_join (path_join repo_dir ''recipes'') (slug @ ''.json'')) recipe2) w2;
          index' = index_after recipe2 (index_file w3);
          w4 = (if index' = index_file w3 then w3
                else emit (WriteIndex index') (w3\<lparr>index_file := index'\<rparr>))
      in emit (Chdir repo_dir) w4)"

section \<open>Facts about strings\<close>

lemma contains_sublist: "contains sub s = sublist sub s"
  by (induction s) (simp_all add: sublist_Cons_right)

lemma contains_lower: "contains sub s \<Longrightarrow> contains (lower sub) (lower s)"
  unfolding contains_sublist lower_def by (rule map_mono_sublist)

lemma replace_skip_char:
  "replace_skip [a] [b] 0 s = map (\<lambda>c. if c = a then b else c) s"
  by (induction s) auto

lemma replace_char: "replace [a] [b] s = map (\<lambda>c. if c = a then b else c) s"
  by (simp add: replace_def replace_skip_char)

lemma char_of_shift_not_slash:
  fixes n :: nat
  assumes "65 \<le> n" "n \<le> 222"
  shows "char_of (n + 32) \<noteq> CHR ''/''"
proof
  assume "char_of (n + 32) = CHR ''/''"
  then have "(of_char (char_of (n + 32)) :: nat) = of_char CHR ''/''"
    by (rule arg_cong)
  then have "(n + 32) mod 256 = 47" by simp
  moreover have "(n + 32) mod 256 = n + 32" using assms by simp
  ultimately show False using assms by linarith
qed

lemma lower_char_slash: "lower_char c = CHR ''/'' \<longleftrightarrow> c = CHR ''/''"
proof (cases "(65 \<le> (of_char c :: nat) \<and> (of_char c :: nat) \<le> 90)
              \<or> (192 \<le> (of_char c :: nat) \<and> (of_char c :: nat) \<le> 222 \<and> (of_char c :: nat) \<noteq> 215)")
  case True
  then have up: "65 \<le> (of_char c :: nat)" "(of_char c :: nat) \<le> 222" by auto
  have "lower_char c = char_of ((of_char c :: nat) + 32)"
    using True unfolding lower_char_def Let_def by (rule if_P)
  then have "lower_char c \<noteq> CHR ''/''"
    using char_of_shift_not_slash [OF up] by simp
  moreover have "c \<noteq> CHR ''/''"
  proof
    assume "c = CHR ''/''"
    then have "(of_char c :: nat) = 47" by simp
    then show False using up by simp
  qed
  ultimately show ?thesis by simp
next
  case False
  have "lower_char c = c"
    using False unfolding lower_char_def Let_def by (rule if_not_P)
  then show ?thesis by simp
qed

section \<open>The slug\<close>

lemma slug_of_maps:
  "slug_of t = filter (\<lambda>c. isalnum c \<or> c = CHR ''-'')
                 (map (\<lambda>c. if c = CHR '' '' \<or> c = CHR ''/'' then CHR ''-'' else c) (lower t))"
proof -
  have "(\<lambda>c. if c = CHR ''/'' then CHR ''-'' else c) \<circ> (\<lambda>c. if c = CHR '' '' then CHR ''-'' else c)
        = (\<lambda>c. if c = CHR '' '' \<or> c = CHR ''/'' then CHR ''-'' else c)"
    by (rule ext) simp
  then show ?thesis
    by (simp add: slug_of_def replace_char Let_def)
qed

lemma slug_of_no_slash:
  assumes "CHR ''/'' \<notin> set t"
  shows "slug_of t = slug_spec t"
proof -
  have "CHR ''/'' \<notin> set (lower t)"
  proof
    assume "CHR ''/'' \<in> set (lower t)"
    then obtain c where "c \<in> set t" and "lower_char c = CHR ''/''"
      unfolding lower_def by (metis (no_types) imageE list.set_map)
    then show False using assms by (simp add: lower_char_slash)
  qed
  then have "map (\<lambda>c. if c = CHR '' '' \<or> c = CHR ''/'' then CHR ''-'' else c) (lower t)
             = map (\<lambda>c. if c = CHR '' '' then CHR ''-'' else c) (lower t)"
    by (intro map_cong) auto
  then show ?thesis unfolding slug_of_maps slug_spec_def by (rule arg_cong)
qed

lemma slug_example: "slug_of ''Spicy Garlic Noodles!'' = ''spicy-garlic-noodles''"
  by code_simp

text \<open>
  C8, as the specification words it, fails: the source also turns every slash into a
  hyphen before it strips, so a title with a slash keeps a hyphen there. The three steps
  of the specification give \<open>maccheese\<close> for \<open>Mac/Cheese\<close>, the source gives \<open>mac-cheese\<close>.
\<close>

theorem slug_spec_counterexample:
  "slug_of ''Mac/Cheese'' = ''mac-cheese'' \<and> slug_spec ''Mac/Cheese'' = ''maccheese''
   \<and> slug_of ''Mac/Cheese'' \<noteq> slug_spec ''Mac/Cheese''"
  by code_simp

text \<open>
  C8, amended: the slug of a title is its lower-case form with every space and every
  slash replaced by a hyphen and then every character removed that is neither
  alphanumeric nor a hyphen. For a title without a slash this is the slug of the
  specification, and \<open>Spicy Garlic Noodles!\<close> gives \<open>spicy-garlic-noodles\<close>.
\<close>

theorem slug_generation:
  "slug_of t = filter (\<lambda>c. isalnum c \<or> c = CHR ''-'')
                 (map (\<lambda>c. if c = CHR '' '' \<or> c = CHR ''/'' then CHR ''-'' else c) (lower t))
   \<and> (CHR ''/'' \<notin> set t \<longrightarrow> slug_of t = slug_spec t)
   \<and> slug_of ''Spicy Garlic Noodles!'' = ''spicy-garlic-noodles''"
  using slug_of_maps [of t] slug_of_no_slash [of t] slug_example by blast

theorem slug_generation_witness:
  "CHR ''/'' \<notin> set ''Spicy Garlic Noodles!''
   \<and> slug_of ''Spicy Garlic Noodles!'' = slug_spec ''Spicy Garlic Noodles!''
   \<and> slug_spec ''Spicy Garlic Noodles!'' = ''spicy-garlic-noodles''"
proof -
  have h: "CHR ''/'' \<notin> set ''Spicy Garlic Noodles!''" by simp
  from slug_generation [of "''Spicy Garlic Noodles!''"] h
  have a: "slug_of ''Spicy Garlic Noodles!'' = slug_spec ''Spicy Garlic Noodles!''"
    and b: "slug_of ''Spicy Garlic Noodles!'' = ''spicy-garlic-noodles''"
    by blast+
  have c: "slug_spec ''Spicy Garlic Noodles!'' = ''spicy-garlic-noodles''"
    using a [symmetric] b by (rule trans)
  show ?thesis using h a c by (intro conjI)
qed

section \<open>Platform detection and the allow-list\<close>

lemma lower_youtu_be: "lower ''youtu.be'' = ''youtu.be''"
  by code_simp

lemma supported_youtu_be:
  assumes "contains ''youtu.be'' u"
  shows "supported u"
proof -
  have "contains ''youtu.be'' (lower u)"
    using contains_lower [OF assms] by (simp only: lower_youtu_be)
  then show ?thesis
    by (simp add: supported_def valid_platforms_def)
qed

lemma handler_started:
  assumes "supported u"
  shows "started (snd (handler_main [prog, u] run)) = [[''python3'', pipeline_path, u]]"
  using assms
  by (simp add: handler_main_def Let_def split: shell_result.split option.split)

text \<open>
  C3: the allow-list of telegram_handler.py looks for the platform names in
  \<open>url.lower()\<close>, the detection of \<open>extract_recipe\<close> in the URL as it is. A URL that
  spells \<open>TikTok.com\<close> passes the allow-list, reaches the pipeline unchanged and is
  labelled \<open>unknown\<close>, where the claim has \<open>tiktok\<close>.
\<close>

theorem detection_mixed_case:
  "contains ''tiktok.com'' (lower mixed_case_url) \<and> supported mixed_case_url
   \<and> detect_platform mixed_case_url = ''unknown''"
  by code_simp

text \<open>
  C9, as stated, fails: a short link may carry one of the two names the detection tests
  first, and is then labelled with that name.
\<close>

theorem short_link_counterexample:
  "contains ''youtu.be'' short_link_tiktok \<and> \<not> contains ''youtube'' short_link_tiktok
   \<and> supported short_link_tiktok
   \<and> detect_platform short_link_tiktok = ''tiktok''
   \<and> detect_platform short_link_tiktok \<noteq> ''unknown''"
  by code_simp

text \<open>
  C9, amended: a URL that contains \<open>youtu.be\<close> and none of \<open>youtube\<close>, \<open>tiktok\<close>,
  \<open>instagram\<close> passes the allow-list, the dispatcher starts the pipeline on it, and the
  detection labels it \<open>unknown\<close>.
\<close>

theorem short_link_mismatch:
  assumes "contains ''youtu.be'' u"
    and "\<not> contains ''youtube'' u" and "\<not> contains ''tiktok'' u" and "\<not> contains ''instagram'' u"
  shows "supported u
         \<and> started (snd (handler_main [prog, u] run)) = [[''python3'', pipeline_path, u]]
         \<and> detect_platform u = ''unknown''"
  using assms supported_youtu_be [of u] handler_started [of u prog run]
  by (simp add: detect_platform_def)

lemma short_link_facts:
  "contains ''youtu.be'' short_link \<and> \<not> contains ''youtube'' short_link
   \<and> \<not> contains ''tiktok'' short_link \<and> \<not> contains ''instagram'' short_link"
  by code_simp

theorem short_link_mismatch_witness:
  "contains ''youtu.be'' short_link \<and> \<not> contains ''youtube'' short_link
   \<and> \<not> contains ''tiktok'' short_link \<and> \<not> contains ''instagram'' short_link
   \<and> supported short_link
   \<and> started (snd (handler_main [''telegram_handler.py'', short_link] failing_run))
       = [[''python3'', pipeline_path, short_link]]
   \<and> detect_platform short_link = ''unknown''"
  using short_link_facts short_link_mismatch [of short_link "''telegram_handler.py''" failing_run]
  by blast

section \<open>The exit status of the dispatcher\<close>

lemma handler_failure:
  assumes "supported u" and "run [''python3'', pipeline_path, u] = Exited r" and "returncode r \<noteq> 0"
  shows "handler_main [prog, u] run =
           (Returned (), \<lparr>printed = [Failed, Text (tail500 (stderr r))],
                          started = [[''python3'', pipeline_path, u]]\<rparr>)"
  using assms by (simp add: handler_main_def Let_def)

lemma handler_exit_0:
  assumes "supported u" and "run [''python3'', pipeline_path, u] = Exited r"
  shows "exit_status (fst (handler_main [prog, u] run)) = 0"
  using assms by (simp add: handler_main_def Let_def split: option.split)

lemma tail500_length: "length (tail500 s) = min 500 (length s)"
  by (simp add: tail500_def)

lemma tail500_suffix: "suffix (tail500 s) s"
  by (simp add: tail500_def suffix_drop)

lemma tiktok_supported: "supported tiktok_url"
  by code_simp

text \<open>
  C4, as stated, fails: when the runner exits with a status other than 0, \<open>main\<close> of
  telegram_handler.py prints the two failure lines and returns; there is no
  \<open>sys.exit\<close> on that path, so the dispatcher exits with status 0, not 1.
\<close>

theorem dispatcher_exit_counterexample:
  "supported tiktok_url
   \<and> exit_status (fst (handler_main [''telegram_handler.py'', tiktok_url] failing_run)) = 0
   \<and> exit_status (fst (handler_main [''telegram_handler.py'', tiktok_url] failing_run)) \<noteq> 1"
  by code_simp

text \<open>
  C4, amended: for an allow-listed URL whose runner comes back within the time limit,
  a runner status other than 0 makes the dispatcher print the failure message and the
  last 500 characters of the runner's error output (all of it when it is shorter), and
  the dispatcher exits with status 0 whatever the status of the runner was.
\<close>

theorem dispatcher_exit:
  assumes "supported u" and "run [''python3'', pipeline_path, u] = Exited r"
  shows "(returncode r \<noteq> 0 \<longrightarrow>
            handler_main [prog, u] run =
              (Returned (), \<lparr>printed = [Failed, Text (tail500 (stderr r))],
                             started = [[''python3'', pipeline_path, u]]\<rparr>))
         \<and> length (tail500 (stderr r)) = min 500 (length (stderr r))
         \<and> suffix (tail500 (stderr r)) (stderr r)
         \<and> exit_status (fst (handler_main [prog, u] run)) = 0"
  using assms handler_failure [where u = u and run = run and r = r and prog = prog]
    handler_exit_0 [where u = u and run = run and r = r and prog = prog]
  by (simp add: tail500_length tail500_suffix)

theorem dispatcher_exit_witness:
  "supported tiktok_url
   \<and> handler_main [''telegram_handler.py'', tiktok_url] failing_run =
       (Returned (), \<lparr>printed = [Failed, Text ''Traceback (most recent call last):''],
                      started = [[''python3'', pipeline_path, tiktok_url]]\<rparr>)
   \<and> exit_status (fst (handler_main [''telegram_handler.py'', tiktok_url] failing_run)) = 0"
proof -
  have run: "failing_run [''python3'', pipeline_path, tiktok_url]
             = Exited \<lparr>returncode = 1, stdout = [], stderr = ''Traceback (most recent call last):''\<rparr>"
    by (simp add: failing_run_def)
  show ?thesis
    using run tiktok_supported
      dispatcher_exit [where u = tiktok_url and run = failing_run and prog = "''telegram_handler.py''"
        and r = "\<lparr>returncode = 1, stdout = [], stderr = ''Traceback (most recent call last):''\<rparr>"]
    by (simp add: tail500_def)
qed

section \<open>Decimal numerals and the colour scheme\<close>

lemma str_nat_small: "n < 10 \<Longrightarrow> str_nat n = [char_of (48 + n)]"
  by (subst str_nat.simps) simp

lemma str_nat_big:
  "\<not> n < 10 \<Longrightarrow> str_nat n = str_nat (n div 10) @ [char_of (48 + n mod 10)]"
  by (subst str_nat.simps) simp

lemma digit_inj:
  fixes a b :: nat
  assumes "a < 10" "b < 10" "char_of (48 + a) = char_of (48 + b)"
  shows "a = b"
proof -
  have "(of_char (char_of (48 + a)) :: nat) = of_char (char_of (48 + b))"
    using assms(3) by (rule arg_cong)
  then have "(48 + a) mod 256 = (48 + b) mod 256" by simp
  then show ?thesis using assms(1,2) by simp
qed

lemma str_nat_not_Nil: "str_nat n \<noteq> []" "[] \<noteq> str_nat n"
  by (cases "n < 10"; simp add: str_nat_small str_nat_big)+

lemma divmod_eq:
  fixes n m :: nat
  assumes "n div 10 = m div 10" "n mod 10 = m mod 10"
  shows "n = m"
proof -
  have "n = n div 10 * 10 + n mod 10" by simp
  also have "\<dots> = m div 10 * 10 + m mod 10" using assms by (simp only:)
  also have "\<dots> = m" by simp
  finally show ?thesis .
qed

lemma str_nat_inj: "str_nat n = str_nat m \<Longrightarrow> n = m"
proof (induction n arbitrary: m rule: str_nat.induct)
  case (1 n)
  show ?case
  proof (cases "n < 10")
    case n_small: True
    show ?thesis
    proof (cases "m < 10")
      case True
      with n_small "1.prems" show ?thesis
        by (simp add: str_nat_small digit_inj)
    next
      case False
      with n_small "1.prems" show ?thesis
        by (simp add: str_nat_small str_nat_big str_nat_not_Nil)
    qed
  next
    case n_big: False
    show ?thesis
    proof (cases "m < 10")
      case True
      with n_big "1.prems" show ?thesis
        by (simp add: str_nat_small str_nat_big str_nat_not_Nil)
    next
      case False
      with n_big "1.prems"
      have eq: "str_nat (n div 10) = str_nat (m div 10)"
        and d: "char_of (48 + n mod 10) = char_of (48 + m mod 10)"
        by (simp_all add: str_nat_big)
      from "1.IH" [OF n_big eq] have "n div 10 = m div 10" .
      moreover from d have "n mod 10 = m mod 10"
        by (rule digit_inj [rotated 2]) simp_all
      ultimately show ?thesis
        by (rule divmod_eq)
    qed
  qed
qed

lemma digit_not_comma:
  fixes d :: nat
  assumes "d < 10"
  shows "char_of (48 + d) \<noteq> CHR '',''"
proof
  assume "char_of (48 + d) = CHR '',''"
  then have "(of_char (char_of (48 + d)) :: nat) = of_char CHR '',''"
    by (rule arg_cong)
  then have "(48 + d) mod 256 = 44" by simp
  then show False using assms by simp
qed

lemma str_nat_no_comma: "CHR '','' \<notin> set (str_nat n)"
proof (induction n rule: str_nat.induct)
  case (1 n)
  show ?case
  proof (cases "n < 10")
    case True
    then show ?thesis by (simp add: str_nat_small digit_not_comma [symmetric])
  next
    case False
    with "1.IH" show ?thesis by (simp add: str_nat_big digit_not_comma [symmetric])
  qed
qed

lemma split_at_separator:
  assumes "c \<notin> set xs" "c \<notin> set ys" "xs @ c # r = ys @ c # r'"
  shows "xs = ys"
  using assms
proof (induction xs arbitrary: ys)
  case Nil
  then show ?case by (cases ys) auto
next
  case (Cons x xs)
  then show ?case by (cases ys) auto
qed

lemma str_int_inj: "0 \<le> i \<Longrightarrow> 0 \<le> j \<Longrightarrow> str_int i = str_int j \<Longrightarrow> i = j"
  by (auto simp add: str_int_def dest: str_nat_inj)

lemma str_int_no_comma: "0 \<le> i \<Longrightarrow> CHR '','' \<notin> set (str_int i)"
  by (simp add: str_int_def str_nat_no_comma)

lemma shift_mod_inj:
  fixes h h' k :: int
  assumes "0 \<le> h" "h < 360" "0 \<le> h'" "h' < 360" "(h + k) mod 360 = (h' + k) mod 360"
  shows "h = h'"
proof (rule ccontr)
  assume ne: "h \<noteq> h'"
  from assms(5) have "360 dvd (h + k) - (h' + k)"
    by (rule mod_eq_dvd_iff [THEN iffD1])
  then have "360 dvd h - h'" by simp
  moreover from ne have "h - h' \<noteq> 0" by simp
  ultimately have "\<bar>360\<bar> \<le> \<bar>h - h'\<bar>" by (intro dvd_imp_le_int)
  with assms(1-4) show False by simp
qed


lemma hue_range: "0 \<le> hue_of t \<and> hue_of t < 360"
  by (simp add: hue_of_def)

lemma scheme_of_hue:
  "generate_color_scheme t =
     \<lparr> primary = ''hsl('' @ str_int (hue_of t) @ '', 80%, 55%)'',
       secondary = ''hsl('' @ str_int ((hue_of t + 30) mod 360) @ '', 70%, 60%)'',
       accent = ''hsl('' @ str_int ((hue_of t + 180) mod 360) @ '', 75%, 50%)'',
       gradient = ''linear-gradient(135deg, hsl('' @ str_int (hue_of t) @ '', 80%, 55%), hsl(''
                    @ str_int ((hue_of t + 40) mod 360) @ '', 70%, 60%))'' \<rparr>"
  by (simp add: generate_color_scheme_def hue_of_def Let_def)

lemma primary_inj:
  assumes "primary (generate_color_scheme t1) = primary (generate_color_scheme t2)"
  shows "hue_of t1 = hue_of t2"
proof -
  from assms have "str_int (hue_of t1) = str_int (hue_of t2)"
    by (simp add: scheme_of_hue)
  then show ?thesis
    using hue_range [of t1] hue_range [of t2] by (auto dest: str_int_inj)
qed

lemma secondary_inj:
  assumes "secondary (generate_color_scheme t1) = secondary (generate_color_scheme t2)"
  shows "hue_of t1 = hue_of t2"
proof -
  from assms have "str_int ((hue_of t1 + 30) mod 360) = str_int ((hue_of t2 + 30) mod 360)"
    by (simp add: scheme_of_hue)
  then have "(hue_of t1 + 30) mod 360 = (hue_of t2 + 30) mod 360"
    by (rule str_int_inj [rotated 2]) simp_all
  then show ?thesis
    using hue_range [of t1] hue_range [of t2] shift_mod_inj [of "hue_of t1" "hue_of t2" 30] by simp
qed

lemma accent_inj:
  assumes "accent (generate_color_scheme t1) = accent (generate_color_scheme t2)"
  shows "hue_of t1 = hue_of t2"
proof -
  from assms have "str_int ((hue_of t1 + 180) mod 360) = str_int ((hue_of t2 + 180) mod 360)"
    by (simp add: scheme_of_hue)
  then have "(hue_of t1 + 180) mod 360 = (hue_of t2 + 180) mod 360"
    by (rule str_int_inj [rotated 2]) simp_all
  then show ?thesis
    using hue_range [of t1] hue_range [of t2] shift_mod_inj [of "hue_of t1" "hue_of t2" 180] by simp
qed

lemma gradient_inj:
  assumes "gradient (generate_color_scheme t1) = gradient (generate_color_scheme t2)"
  shows "hue_of t1 = hue_of t2"
proof -
  from assms have
    "str_int (hue_of t1) @ CHR '','' # ('' 80%, 55%), hsl('' @ str_int ((hue_of t1 + 40) mod 360) @ '', 70%, 60%))'')
     = str_int (hue_of t2) @ CHR '','' # ('' 80%, 55%), hsl('' @ str_int ((hue_of t2 + 40) mod 360) @ '', 70%, 60%))'')"
    by (simp add: scheme_of_hue)
  then have "str_int (hue_of t1) = str_int (hue_of t2)"
    using hue_range [of t1] hue_range [of t2]
      str_int_no_comma [of "hue_of t1"] str_int_no_comma [of "hue_of t2"]
    by (blast dest: split_at_separator)
  then show ?thesis
    using hue_range [of t1] hue_range [of t2] by (auto dest: str_int_inj)
qed

lemma scheme_eq:
  assumes "hue_of t1 = hue_of t2"
  shows "generate_color_scheme t1 = generate_color_scheme t2"
  using assms by (simp add: scheme_of_hue)

lemma md5_Dal: "md5_int (encode ''Dal'') = 195846999860826082163170202534444299147"
  by code_simp

lemma md5_Fries: "md5_int (encode ''Fries'') = 291693080395474718645467785078529609147"
  by code_simp

lemma md5_Test_Soup: "md5_int (encode ''Test Soup'') = 12495188585594672933254331487614452988"
  by code_simp

text \<open>
  C7, as stated, fails: the hue is the hash modulo 360, so two titles whose hashes
  differ share a hue whenever the hashes are congruent modulo 360. The digests of
  \<open>Dal\<close> and \<open>Fries\<close> differ, and both titles have hue 187.
\<close>

theorem hue_collision_counterexample:
  "''Dal'' \<noteq> ''Fries'' \<and> md5_int (encode ''Dal'') \<noteq> md5_int (encode ''Fries'')
   \<and> hue_of ''Dal'' = hue_of ''Fries''"
  by (simp add: hue_of_def md5_Dal md5_Fries)

text \<open>
  C7, amended: for every pair of titles the hues differ, and with them the primary,
  secondary, accent and gradient values, unless the hashes of the titles are congruent
  modulo 360; when they are congruent, the hues and the whole colour schemes agree.
\<close>

theorem hue_separation:
  "(md5_int (encode t1) mod 360 \<noteq> md5_int (encode t2) mod 360 \<longrightarrow>
      hue_of t1 \<noteq> hue_of t2
      \<and> primary (generate_color_scheme t1) \<noteq> primary (generate_color_scheme t2)
      \<and> secondary (generate_color_scheme t1) \<noteq> secondary (generate_color_scheme t2)
      \<and> accent (generate_color_scheme t1) \<noteq> accent (generate_color_scheme t2)
      \<and> gradient (generate_color_scheme t1) \<noteq> gradient (generate_color_scheme t2))
   \<and> (md5_int (encode t1) mod 360 = md5_int (encode t2) mod 360 \<longrightarrow>
      hue_of t1 = hue_of t2 \<and> generate_color_scheme t1 = generate_color_scheme t2)"
proof (intro conjI impI)
  assume "md5_int (encode t1) mod 360 = md5_int (encode t2) mod 360"
  then show h: "hue_of t1 = hue_of t2" by (simp add: hue_of_def)
  then show "generate_color_scheme t1 = generate_color_scheme t2" by (rule scheme_eq)
next
  assume "md5_int (encode t1) mod 360 \<noteq> md5_int (encode t2) mod 360"
  then have ne: "hue_of t1 \<noteq> hue_of t2" by (simp add: hue_of_def)
  then show "hue_of t1 \<noteq> hue_of t2" .
  from ne show "primary (generate_color_scheme t1) \<noteq> primary (generate_color_scheme t2)"
    using primary_inj by blast
  from ne show "secondary (generate_color_scheme t1) \<noteq> secondary (generate_color_scheme t2)"
    using secondary_inj by blast
  from ne show "accent (generate_color_scheme t1) \<noteq> accent (generate_color_scheme t2)"
    using accent_inj by blast
  from ne show "gradient (generate_color_scheme t1) \<noteq> gradient (generate_color_scheme t2)"
    using gradient_inj by blast
qed

theorem hue_separation_witness:
  "md5_int (encode ''Dal'') mod 360 \<noteq> md5_int (encode ''Test Soup'') mod 360
   \<and> hue_of ''Dal'' \<noteq> hue_of ''Test Soup''
   \<and> primary (generate_color_scheme ''Dal'') \<noteq> primary (generate_color_scheme ''Test Soup'')
   \<and> md5_int (encode ''Dal'') mod 360 = md5_int (encode ''Fries'') mod 360
   \<and> generate_color_scheme ''Dal'' = generate_color_scheme ''Fries''"
proof -
  have a: "md5_int (encode ''Dal'') mod 360 \<noteq> md5_int (encode ''Test Soup'') mod 360"
    by (simp add: md5_Dal md5_Test_Soup)
  have b: "md5_int (encode ''Dal'') mod 360 = md5_int (encode ''Fries'') mod 360"
    by (simp add: md5_Dal md5_Fries)
  show ?thesis
    using a b hue_separation [of "''Dal''" "''Test Soup''"] hue_separation [of "''Dal''" "''Fries''"]
    by blast
qed

end
